theory Spec2Isabelle
  imports Complex_Main "HOL-Library.Sublist"
begin

text \<open>
  A model of the fragment pipeline of \<open>ytarchive.py\<close> (version 0.2.1): the container
  fix-up \<open>remove_sidx\<close>, the parsing of quality lists, the test for fragmented URLs, the
  refresh of the download URLs in \<open>get_video_info\<close>, the worker's handling of HTTP
  errors, the \<open>--threads\<close> option, and the assembler loop of \<open>download_stream\<close>. The
  definitions come first, each next to the source lines it follows; the properties
  follow, grouped by function.
\<close>

section \<open>Container fix-up: \<open>get_atoms\<close> and \<open>remove_sidx\<close>\<close>

text \<open>
  A Python \<open>bytes\<close> value is a list of 8-bit characters; \<open>of_char\<close> reads one byte as a
  number. Slices \<open>data[a:b]\<close> with \<open>0 \<le> a \<le> b\<close> are \<open>take (b - a) (drop a data)\<close>, which
  clamps at the end of the data exactly as Python does.
\<close>

type_synonym bytes = "char list"

text \<open>\<open>int(bs.hex(), 16)\<close> for a non-empty \<open>bs\<close>: the big-endian value of the bytes.\<close>

definition be_int :: "bytes \<Rightarrow> nat" where
  "be_int bs = foldl (\<lambda>a c. a * 256 + of_char c) 0 bs"

text \<open>
  \<open>bytes.decode()\<close> is strict UTF-8 and raises \<open>UnicodeDecodeError\<close> on anything else.
  \<open>utf8_ok\<close> decides, on the byte values, whether decoding succeeds (well-formed
  sequences only: no overlong forms, no surrogates, nothing above U+10FFFF).
\<close>

definition utf8_cont :: "nat \<Rightarrow> bool" where
  "utf8_cont b = (128 \<le> b \<and> b \<le> 191)"

fun utf8_ok :: "nat list \<Rightarrow> bool" where
  "utf8_ok [] = True"
| "utf8_ok (a # rest) =
     (if a < 128 then utf8_ok rest
      else if 194 \<le> a \<and> a \<le> 223 then
        (case rest of b # r \<Rightarrow> utf8_cont b \<and> utf8_ok r | _ \<Rightarrow> False)
      else if 224 \<le> a \<and> a \<le> 239 then
        (case rest of
           b # c # r \<Rightarrow>
             (if a = 224 then 160 \<le> b \<and> b \<le> 191
              else if a = 237 then 128 \<le> b \<and> b \<le> 159
              else utf8_cont b) \<and> utf8_cont c \<and> utf8_ok r
         | _ \<Rightarrow> False)
      else if 240 \<le> a \<and> a \<le> 244 then
        (case rest of
           b # c # d # r \<Rightarrow>
             (if a = 240 then 144 \<le> b \<and> b \<le> 191
              else if a = 244 then 128 \<le> b \<and> b \<le> 143
              else utf8_cont b) \<and> utf8_cont c \<and> utf8_cont d \<and> utf8_ok r
         | _ \<Rightarrow> False)
      else False)"

text \<open>
  The value stored per box: the dictionary \<open>{"ofs": ofs, "len": alen}\<close>.
\<close>

record atom =
  atom_ofs :: nat
  atom_len :: nat

text \<open>
  The table \<open>atoms\<close> is a Python dictionary keyed by the decoded box name. Decoding is
  injective on well-formed UTF-8, so the model keys the table by the name's bytes.
\<close>

type_synonym atoms = "string \<rightharpoonup> atom"

text \<open>
  The \<open>try\<close> block of one loop round, up to the point where the box is recorded:
  \<^verbatim>\<open>
      alen = int(data[ofs:ofs+4].hex(), 16)
      if alen > len(data):
          break
      aname = data[ofs+4:ofs+8].decode()
  \<close>
  \<open>None\<close> is every way of leaving the loop here without recording a box: \<open>int('', 16)\<close>
  raises \<open>ValueError\<close> on an empty slice, the size exceeds \<open>len(data)\<close>, or the name does
  not decode.
\<close>

definition read_atom :: "bytes \<Rightarrow> nat \<Rightarrow> (string \<times> nat) option" where
  "read_atom data ofs =
     (if take 4 (drop ofs data) = [] then None
      else if be_int (take 4 (drop ofs data)) > length data then None
      else if utf8_ok (map of_char (take 4 (drop (ofs + 4) data)))
        then Some (take 4 (drop (ofs + 4) data), be_int (take 4 (drop ofs data)))
      else None)"

text \<open>
  The \<open>while True\<close> loop of \<open>get_atoms\<close>. It has no bound of its own, so it is a partial
  function: \<open>None\<close> means the loop never returns.
\<close>

partial_function (option) get_atoms_loop :: "bytes \<Rightarrow> nat \<Rightarrow> atoms \<Rightarrow> atoms option" where
  "get_atoms_loop data ofs atoms =
     (case read_atom data ofs of
        None \<Rightarrow> Some atoms
      | Some (aname, alen) \<Rightarrow>
          (if ofs + alen + 8 \<ge> length data
           then Some (atoms(aname \<mapsto> \<lparr>atom_ofs = ofs, atom_len = alen\<rparr>))
           else get_atoms_loop data (ofs + alen)
                  (atoms(aname \<mapsto> \<lparr>atom_ofs = ofs, atom_len = alen\<rparr>))))"

definition get_atoms :: "bytes \<Rightarrow> atoms option" where
  "get_atoms data = get_atoms_loop data 0 Map.empty"

definition remove_sidx :: "bytes \<Rightarrow> bytes option" where
  "remove_sidx data =
     (case get_atoms data of
        None \<Rightarrow> None
      | Some atoms \<Rightarrow>
          (case atoms ''sidx'' of
             None \<Rightarrow> Some data
           | Some sidx \<Rightarrow>
               Some (take (atom_ofs sidx) data @ drop (atom_ofs sidx + atom_len sidx) data)))"

text \<open>
  The boxes the loop visits, in order (a history of the loop, not a variable of the
  source): the same recursion, collecting each recorded box instead of overwriting the
  table entry of its name.
\<close>

partial_function (option) visited_atoms :: "bytes \<Rightarrow> nat \<Rightarrow> (string \<times> atom) list option" where
  "visited_atoms data ofs =
     (case read_atom data ofs of
        None \<Rightarrow> Some []
      | Some (aname, alen) \<Rightarrow>
          (if ofs + alen + 8 \<ge> length data
           then Some [(aname, \<lparr>atom_ofs = ofs, atom_len = alen\<rparr>)]
           else Option.bind (visited_atoms data (ofs + alen))
                  (\<lambda>bs. Some ((aname, \<lparr>atom_ofs = ofs, atom_len = alen\<rparr>) # bs))))"

text \<open>Recording a list of boxes in a table, later entries overwriting earlier ones.\<close>

definition record_atoms :: "(string \<times> atom) list \<Rightarrow> atoms \<Rightarrow> atoms" where
  "record_atoms bs atoms = foldl (\<lambda>m (n, a). m(n \<mapsto> a)) atoms bs"









section \<open>Strings\<close>

text \<open>
  A Python \<open>str\<close> is modelled as a \<open>string\<close> whose characters are the code points below
  256 (ASCII and Latin-1). On these, \<open>str.lower\<close> works character by character and
  \<open>str.strip\<close> removes the twelve characters for which \<open>str.isspace\<close> holds. Code points
  from 256 on are outside the model. Console output (\<open>print\<close>, logging) is not modelled.
\<close>

definition py_isspace :: "char \<Rightarrow> bool" where
  "py_isspace c =
     (let n = (of_char c :: nat)
      in (9 \<le> n \<and> n \<le> 13) \<or> (28 \<le> n \<and> n \<le> 32) \<or> n = 133 \<or> n = 160)"

definition py_lower_char :: "char \<Rightarrow> char" where
  "py_lower_char c =
     (let n = (of_char c :: nat)
      in if (65 \<le> n \<and> n \<le> 90) \<or> (192 \<le> n \<and> n \<le> 222 \<and> n \<noteq> 215)
         then char_of (n + 32) else c)"

definition py_lower :: "string \<Rightarrow> string" where
  "py_lower s = map py_lower_char s"

definition py_strip :: "string \<Rightarrow> string" where
  "py_strip s = rev (dropWhile py_isspace (rev (dropWhile py_isspace s)))"

text \<open>\<open>s.split(sep)\<close> for a one-character separator: \<open>"".split("/")\<close> is \<open>[""]\<close>.\<close>

fun py_split :: "char \<Rightarrow> string \<Rightarrow> string list" where
  "py_split sep [] = [[]]"
| "py_split sep (c # cs) =
     (if c = sep then [] # py_split sep cs
      else (case py_split sep cs of
              [] \<Rightarrow> [[c]]
            | p # ps \<Rightarrow> (c # p) # ps))"

text \<open>\<open>sep.join(xs)\<close> for a one-character separator.\<close>

fun py_join :: "char \<Rightarrow> string list \<Rightarrow> string" where
  "py_join sep [] = []"
| "py_join sep [x] = x"
| "py_join sep (x # y # ys) = x @ sep # py_join sep (y # ys)"

text \<open>\<open>s.find(sub)\<close>: the lowest index where \<open>sub\<close> starts in \<open>s\<close>, or \<open>-1\<close>.\<close>

fun find_from :: "nat \<Rightarrow> string \<Rightarrow> string \<Rightarrow> int" where
  "find_from i sub [] = (if sub = [] then int i else - 1)"
| "find_from i sub (c # cs) =
     (if prefix sub (c # cs) then int i else find_from (Suc i) sub cs)"

definition py_find :: "string \<Rightarrow> string \<Rightarrow> int" where
  "py_find s sub = find_from 0 sub s"




section \<open>Quality lists and fragmented URLs\<close>

text \<open>\<open>list(VIDEO_LABEL_ITAGS.keys())\<close>, in the dictionary's order.\<close>

definition VIDEO_LABELS :: "string list" where
  "VIDEO_LABELS =
     [''audio_only'', ''144p'', ''240p'', ''360p'', ''480p'', ''720p'', ''720p60'',
      ''1080p'', ''1080p60'']"

text \<open>
  \<^verbatim>\<open>
  def parse_quality_list(formats, quality):
      selected_qualities = []
      quality = quality.lower().strip()
      selected_quarities = quality.split("/")
      for q in selected_quarities:
          stripped = q.strip()
          if stripped in formats or stripped == "best":
              selected_qualities.append(q)
      ...
      return selected_qualities
  \<close>
  \<open>formats\<close> is a list of labels at both call sites.
\<close>

definition parse_quality_list :: "string list \<Rightarrow> string \<Rightarrow> string list" where
  "parse_quality_list formats quality =
     filter (\<lambda>q. py_strip q \<in> set formats \<or> py_strip q = ''best'')
       (py_split (CHR ''/'') (py_strip (py_lower quality)))"

text \<open>
  What claim C7 expects of the result (no part of the program): the elements of \<open>qs\<close>
  that are in the table or equal \<open>best\<close>, in their order.
\<close>

definition known_or_best :: "string list \<Rightarrow> string list \<Rightarrow> string list" where
  "known_or_best formats qs = filter (\<lambda>q. q \<in> set formats \<or> q = ''best'') qs"

text \<open>\<open>return url.lower().find("noclen") >= 0\<close>\<close>

definition is_fragmented :: "string \<Rightarrow> bool" where
  "is_fragmented url = (py_find (py_lower url) ''noclen'' \<ge> 0)"

text \<open>
  The query component of a URL, in the specification's sense (it is what claim C5
  compares \<open>is_fragmented\<close> with, and no part of the program): the text after the first
  \<open>?\<close>, up to the fragment mark \<open>#\<close>.
\<close>

definition url_query :: "string \<Rightarrow> string" where
  "url_query url =
     drop 1 (dropWhile (\<lambda>c. c \<noteq> CHR ''?'') (takeWhile (\<lambda>c. c \<noteq> CHR ''#'') url))"


section \<open>Run-wide state\<close>

text \<open>
  The classes \<open>FormatInfo\<close>, \<open>MetaInfo\<close>, \<open>MediaDLInfo\<close> and \<open>DownloadInfo\<close>. The lock is
  left out: every function below runs its critical section as one step. Timestamps
  (\<open>time.time()\<close>, a float of seconds) are real numbers; float rounding is not modelled.
\<close>

datatype action = ASK | DO | DO_NOT

datatype dtype = DTYPE_VIDEO | DTYPE_AUDIO

record format_info =
  fi_id :: string
  fi_title :: string
  fi_channel_id :: string
  fi_channel :: string
  fi_upload_date :: string

record meta_info =
  meta_title :: string
  meta_artist :: string
  meta_date :: string
  meta_comment :: string

record media_dl_info =
  active_threads :: int
  download_url :: string
  base_fpath :: string
  data_type :: string

record download_info =
  format_info :: format_info
  metadata :: meta_info
  stopping :: bool
  in_progress :: bool
  is_live :: bool
  vp9 :: bool
  is_unavailable :: bool
  gvideo_ddl :: bool
  thumbnail :: string
  vid :: string
  url :: string
  selected_quality :: string
  status :: string
  dash_manifest_url :: string
  wait :: action
  quality :: int
  retry_secs :: int
  thread_count :: int
  last_updated :: real
  target_duration :: int
  expires_in_seconds :: int
  mdl_info :: "dtype \<Rightarrow> media_dl_info"

text \<open>\<open>MediaDLInfo()\<close> and \<open>DownloadInfo()\<close>: the values the constructors set.\<close>

definition new_media_dl_info :: media_dl_info where
  "new_media_dl_info =
     \<lparr>active_threads = 0, download_url = [], base_fpath = [], data_type = []\<rparr>"

definition new_download_info :: download_info where
  "new_download_info =
     \<lparr>format_info = \<lparr>fi_id = [], fi_title = [], fi_channel_id = [], fi_channel = [],
                      fi_upload_date = []\<rparr>,
      metadata = \<lparr>meta_title = [], meta_artist = [], meta_date = [], meta_comment = []\<rparr>,
      stopping = False, in_progress = False, is_live = False, vp9 = False,
      is_unavailable = False, gvideo_ddl = False,
      thumbnail = [], vid = [], url = [], selected_quality = [], status = [],
      dash_manifest_url = [],
      wait = ASK, quality = - 1, retry_secs = 0, thread_count = 1, last_updated = 0,
      target_duration = 5, expires_in_seconds = 21540,
      mdl_info = (\<lambda>_. new_media_dl_info)\<rparr>"

definition RECHECK_TIME :: real where
  "RECHECK_TIME = 15"

definition FRAG_MAX_TRIES :: int where
  "FRAG_MAX_TRIES = 10"

definition AUDIO_ITAG :: int where
  "AUDIO_ITAG = 140"

section \<open>\<open>get_video_info\<close>\<close>

text \<open>
  What a Python function hands back where the source returns \<open>False\<close>, \<open>None\<close> or
  \<open>True\<close>; \<open>Raised\<close> is an exception leaving the function.
\<close>

datatype py_ret = RFalse | RNone | RTrue | Raised

text \<open>
  The player response, reduced to the fields that \<open>get_video_info\<close> reads from it
  (lines 587-593, 599-605, 614-618, 701-704), and one entry of \<open>adaptiveFormats\<close>. A
  response that lacks one of these fields raises \<open>KeyError\<close> in the source; the model
  starts from responses that have them.
\<close>

record adaptive_format =
  fmt_itag :: int
  fmt_url :: "string option"
  fmt_target_duration :: int

record probe_vals =
  pv_is_live :: bool
  pv_end_timestamp :: bool
  pv_formats :: "adaptive_format list"
  pv_dash_manifest_url :: "string option"
  pv_expires_in_seconds :: int
  pv_thumbnail :: string
  pv_format_info :: format_info
  pv_metadata :: meta_info

text \<open>
  The world outside the program, as far as \<open>get_video_info\<close> meets it:
  \<^item> \<open>probe\<close> is \<open>get_playable_player_response\<close>: it fetches the player response, may
    prompt and sleep, and may set \<open>is_live\<close>, \<open>is_unavailable\<close> and \<open>retry_secs\<close>;
  \<^item> \<open>manifest_urls\<close> is the download and parse of the DASH manifest
    (\<open>download_as_text\<close>, \<open>get_urls_from_manifest\<close>), in document order, empty on failure;
  \<^item> \<open>select_quality\<close> is the first-run quality selection (lines 621-685), which prompts
    the user until a quality is available; \<open>None\<close> is an exception;
  \<^item> \<open>clock_after\<close> is \<open>time.time()\<close> as read at line 706.
\<close>

record env =
  probe :: "download_info \<Rightarrow> probe_vals option \<times> download_info"
  manifest_urls :: "string \<Rightarrow> (int \<times> string) list"
  select_quality :: "(int \<rightharpoonup> string) \<Rightarrow> probe_vals \<Rightarrow> download_info \<Rightarrow> download_info option"
  clock_after :: real

text \<open>
  The result of a call: what it returns, the state it leaves, and how many times it
  called \<open>get_playable_player_response\<close>.
\<close>

record gvi_result =
  gv_ret :: py_ret
  gv_info :: download_info
  gv_probes :: nat

text \<open>\<open>info.mdl_info[dt].download_url = u\<close>\<close>

definition set_download_url :: "dtype \<Rightarrow> string \<Rightarrow> download_info \<Rightarrow> download_info" where
  "set_download_url dt u info =
     info\<lparr>mdl_info := (mdl_info info)(dt := (mdl_info info dt)\<lparr>download_url := u\<rparr>)\<rparr>"

text \<open>
  \<open>get_download_urls\<close>: the manifest's URLs when there is a manifest URL and the manifest
  yields any, else one URL per format that has one.
\<close>

definition get_download_urls ::
  "env \<Rightarrow> download_info \<Rightarrow> adaptive_format list \<Rightarrow> (int \<rightharpoonup> string)" where
  "get_download_urls e info formats =
     (if dash_manifest_url info \<noteq> [] \<and> manifest_urls e (dash_manifest_url info) \<noteq> []
      then map_of (rev (manifest_urls e (dash_manifest_url info)))
      else foldl (\<lambda>urls fmt. case fmt_url fmt of
                                None \<Rightarrow> urls
                              | Some u \<Rightarrow> urls(fmt_itag fmt \<mapsto> u @ ''&sq={0}''))
             Map.empty formats)"

text \<open>
  Lines 686-695: the refresh of the two URL templates once a quality is chosen. A
  template is rebound only when the new URL is there and fragmented.
\<close>

definition rebind_urls :: "(int \<rightharpoonup> string) \<Rightarrow> download_info \<Rightarrow> download_info" where
  "rebind_urls dl_urls info =
     (let info1 = (case dl_urls AUDIO_ITAG of
                     Some u \<Rightarrow> if is_fragmented u then set_download_url DTYPE_AUDIO u info
                               else info
                   | None \<Rightarrow> info)
      in if quality info = 0 then info1
         else (case dl_urls (quality info) of
                 Some u \<Rightarrow> if is_fragmented u then set_download_url DTYPE_VIDEO u info1
                           else info1
               | None \<Rightarrow> info1))"

text \<open>Lines 697-708: the extra fields of the first run, then the fields of every run.\<close>

definition finish_refresh :: "env \<Rightarrow> probe_vals \<Rightarrow> download_info \<Rightarrow> download_info" where
  "finish_refresh e vals info =
     (let info1 = (if \<not> in_progress info
                   then info\<lparr>format_info := pv_format_info vals,
                             metadata := pv_metadata vals,
                             thumbnail := pv_thumbnail vals,
                             in_progress := True\<rparr>
                   else info)
      in info1\<lparr>expires_in_seconds := pv_expires_in_seconds vals,
                is_live := pv_is_live vals,
                last_updated := clock_after e\<rparr>)"

text \<open>Lines 587-708: what the function does with a player response.\<close>

definition refresh_from :: "env \<Rightarrow> probe_vals \<Rightarrow> download_info \<Rightarrow> gvi_result" where
  "refresh_from e vals info =
     (case pv_formats vals of
        [] \<Rightarrow> \<lparr>gv_ret = (if \<not> pv_is_live vals \<and> \<not> in_progress info \<and> \<not> pv_end_timestamp vals
                          then RFalse else Raised),
               gv_info = (if \<not> pv_is_live vals \<and> \<not> in_progress info then info
                          else case pv_dash_manifest_url vals of
                                 None \<Rightarrow> info
                               | Some d \<Rightarrow> info\<lparr>dash_manifest_url := d\<rparr>),
               gv_probes = 1\<rparr>
      | fmt0 # _ \<Rightarrow>
          if \<not> pv_is_live vals \<and> \<not> in_progress info
             \<and> (\<not> pv_end_timestamp vals
                 \<or> (case fmt_url fmt0 of None \<Rightarrow> True | Some u \<Rightarrow> \<not> is_fragmented u))
          then \<lparr>gv_ret = RFalse, gv_info = info, gv_probes = 1\<rparr>
          else
            (let info1 = (case pv_dash_manifest_url vals of
                            None \<Rightarrow> info
                          | Some d \<Rightarrow> info\<lparr>dash_manifest_url := d\<rparr>);
                 info2 = info1\<lparr>target_duration := fmt_target_duration fmt0\<rparr>;
                 dl_urls = get_download_urls e info2 (pv_formats vals)
             in if quality info2 < 0
                then (case select_quality e dl_urls vals info2 of
                        None \<Rightarrow> \<lparr>gv_ret = Raised, gv_info = info2, gv_probes = 1\<rparr>
                      | Some info3 \<Rightarrow>
                          \<lparr>gv_ret = RTrue, gv_info = finish_refresh e vals info3,
                           gv_probes = 1\<rparr>)
                else \<lparr>gv_ret = RTrue,
                      gv_info = finish_refresh e vals (rebind_urls dl_urls info2),
                      gv_probes = 1\<rparr>))"

text \<open>
  \<^verbatim>\<open>
  def get_video_info(info):
      with info.lock:
          if info.gvideo_ddl:
              return False
          if info.stopping:
              return False
          if info.is_unavailable:
              return None
          update_delta = time.time() - info.last_updated
          if update_delta < RECHECK_TIME:
              return False
          vals = get_playable_player_response(info)
          if not vals:
              return False
          ...
  \<close>
  \<open>now\<close> is \<open>time.time()\<close> as read at line 579.
\<close>

definition get_video_info :: "env \<Rightarrow> real \<Rightarrow> download_info \<Rightarrow> gvi_result" where
  "get_video_info e now info =
     (if gvideo_ddl info then \<lparr>gv_ret = RFalse, gv_info = info, gv_probes = 0\<rparr>
      else if stopping info then \<lparr>gv_ret = RFalse, gv_info = info, gv_probes = 0\<rparr>
      else if is_unavailable info then \<lparr>gv_ret = RNone, gv_info = info, gv_probes = 0\<rparr>
      else if now - last_updated info < RECHECK_TIME
        then \<lparr>gv_ret = RFalse, gv_info = info, gv_probes = 0\<rparr>
      else (case probe e info of
              (None, info1) \<Rightarrow> \<lparr>gv_ret = RFalse, gv_info = info1, gv_probes = 1\<rparr>
            | (Some vals, info1) \<Rightarrow> refresh_from e vals info1))"


text \<open>A world for the concrete runs below: one live response with an audio and a video format.\<close>

definition example_vals :: probe_vals where
  "example_vals =
     \<lparr>pv_is_live = True, pv_end_timestamp = False,
      pv_formats =
        [\<lparr>fmt_itag = 140, fmt_url = Some ''https://a.example/v?noclen=1&n=2'',
          fmt_target_duration = 2\<rparr>,
         \<lparr>fmt_itag = 299, fmt_url = Some ''https://b.example/v?noclen=1&n=2'',
          fmt_target_duration = 2\<rparr>],
      pv_dash_manifest_url = None, pv_expires_in_seconds = 21540, pv_thumbnail = ''t.jpg'',
      pv_format_info = \<lparr>fi_id = ''id'', fi_title = ''title'', fi_channel_id = ''cid'',
                         fi_channel = ''ch'', fi_upload_date = ''20210127''\<rparr>,
      pv_metadata = \<lparr>meta_title = ''title'', meta_artist = ''ch'', meta_date = ''20210127'',
                      meta_comment = ''c''\<rparr>\<rparr>"

definition example_env :: env where
  "example_env =
     \<lparr>probe = (\<lambda>info. (Some example_vals, info)),
      manifest_urls = (\<lambda>_. []),
      select_quality = (\<lambda>_ _ _. None),
      clock_after = 1000\<rparr>"

text \<open>A run in progress: quality 299 chosen, both templates bound, last refresh at 0.\<close>

definition running_info :: download_info where
  "running_info =
     set_download_url DTYPE_AUDIO ''https://old.example/a?noclen=1&sq={0}''
       (set_download_url DTYPE_VIDEO ''https://old.example/v?noclen=1&sq={0}''
          (new_download_info\<lparr>in_progress := True, is_live := True, quality := 299\<rparr>))"


section \<open>\<open>download_frags\<close>: the handler for HTTP errors\<close>

text \<open>
  The locals of \<open>download_frags\<close> that the \<open>except urllib.error.HTTPError\<close> block (lines
  849-880) reads or writes. \<open>fw_max_seq\<close> is the second component of the pair taken from
  the work queue (initially \<open>-1\<close>).
\<close>

record frag_worker =
  fw_downloading :: bool
  fw_tries :: int
  fw_seq :: int
  fw_max_seq :: int
  fw_is_403 :: bool
  fw_url :: string

text \<open>
  How the block ends: \<open>Break\<close> leaves the retry loop by \<open>break\<close>; \<open>Fall\<close> reaches the end
  of the block, after \<open>tries += 1\<close>, and goes on to the test
  \<open>if tries >= FRAG_MAX_TRIES\<close>; \<open>Crash\<close> is an exception raised inside the handler, which
  nothing in \<open>download_frags\<close> catches.
\<close>

datatype handler_exit = Break | Fall | Crash

record handler_result =
  hr_exit :: handler_exit
  hr_info :: download_info
  hr_worker :: frag_worker

text \<open>
  \<open>tries += 1\<close>, the last statement of the block. The \<open>time.sleep\<close> that follows when
  \<open>tries < FRAG_MAX_TRIES\<close> changes no variable.
\<close>

definition count_retry :: "download_info \<Rightarrow> frag_worker \<Rightarrow> handler_result" where
  "count_retry info w =
     \<lparr>hr_exit = Fall, hr_info = info, hr_worker = w\<lparr>fw_tries := fw_tries w + 1\<rparr>\<rparr>"

text \<open>
  \<^verbatim>\<open>
  if err.code == 403:
      is_403 = True
      if not info.gvideo_ddl:
          with info.lock:
              new_url = info.mdl_info[data_type].download_url
              if new_url != url:
                  url = new_url
              elif get_video_info(info):
                  url = info.mdl_info[data_type].download_url
  elif err.code == 404:
      if max_seq > -1:
          with info.lock:
              if not info.is_live and seq >= (max_seq - 2):
                  downloading = False
                  break
  tries += 1
  \<close>
\<close>

definition on_http_error ::
  "env \<Rightarrow> real \<Rightarrow> dtype \<Rightarrow> int \<Rightarrow> download_info \<Rightarrow> frag_worker \<Rightarrow> handler_result" where
  "on_http_error e now dt code info w =
     (if code = 403 then
        (if gvideo_ddl info then count_retry info (w\<lparr>fw_is_403 := True\<rparr>)
         else if download_url (mdl_info info dt) \<noteq> fw_url w
           then count_retry info
                  (w\<lparr>fw_is_403 := True, fw_url := download_url (mdl_info info dt)\<rparr>)
         else (case gv_ret (get_video_info e now info) of
                 Raised \<Rightarrow>
                   \<lparr>hr_exit = Crash, hr_info = gv_info (get_video_info e now info),
                    hr_worker = w\<lparr>fw_is_403 := True\<rparr>\<rparr>
               | RTrue \<Rightarrow>
                   count_retry (gv_info (get_video_info e now info))
                     (w\<lparr>fw_is_403 := True,
                        fw_url := download_url
                                    (mdl_info (gv_info (get_video_info e now info)) dt)\<rparr>)
               | _ \<Rightarrow>
                   count_retry (gv_info (get_video_info e now info))
                     (w\<lparr>fw_is_403 := True\<rparr>)))
      else if code = 404 then
        (if fw_max_seq w > - 1 \<and> \<not> is_live info \<and> fw_seq w \<ge> fw_max_seq w - 2
         then \<lparr>hr_exit = Break, hr_info = info, hr_worker = w\<lparr>fw_downloading := False\<rparr>\<rparr>
         else count_retry info w)
      else count_retry info w)"

text \<open>
  A worker for the concrete runs: fragment 1 is being fetched, and the server's head
  sequence number, as handed over with the work item, is 0.
\<close>

definition example_worker :: frag_worker where
  "example_worker =
     \<lparr>fw_downloading = True, fw_tries = 0, fw_seq = 1, fw_max_seq = 0, fw_is_403 = False,
      fw_url = ''https://old.example/a?noclen=1&sq={0}''\<rparr>"

section \<open>\<open>main\<close>: the \<open>--threads\<close> option\<close>



section \<open>\<open>download_stream\<close>: the assembler of one track\<close>

text \<open>The classes \<open>Fragment\<close> and \<open>ProgressInfo\<close>.\<close>

record fragment =
  frag_seq :: int
  frag_fname :: string
  frag_x_head_seqnum :: int

record progress_info =
  pi_data_type :: dtype
  pi_bytes :: nat
  pi_max_seq :: int

text \<open>
  The locals of \<open>download_stream\<close>, under the source's names with the prefix \<open>ds\<close>:
  \<^item> \<open>ds_f\<close> is the output file: the bytes written to it so far;
  \<^item> \<open>ds_seq_queue\<close> and \<open>ds_progress_queue\<close> are the items put on these queues so far;
  \<^item> \<open>ds_dthreads\<close> lists the started workers by data type and number (their names).

  Two history variables, which no statement of the source reads, record what the loop
  has done:
  \<^item> \<open>ds_written\<close> lists, for every fragment whose write ran to its end, the sequence
    number and the content read from its file;
  \<^item> \<open>ds_clean\<close> says that no write attempt has failed after it had put bytes into the
    output file.
\<close>

record stream_state =
  ds_cur_frag :: int
  ds_cur_seq :: int
  ds_active_downloads :: int
  ds_max_seqs :: int
  ds_tries :: int
  ds_tnum :: int
  ds_stopping :: bool
  ds_dthreads :: "(dtype \<times> int) list"
  ds_data :: "fragment list"
  ds_del_frags :: "string list"
  ds_i :: nat
  ds_f :: bytes
  ds_seq_queue :: "(int \<times> int) list"
  ds_progress_queue :: "progress_info list"
  ds_written :: "(int \<times> bytes) list"
  ds_clean :: bool









subsection \<open>Writing a fragment\<close>


























text \<open>
  Lines 969-977, the flag \<open>downloading\<close> at the top of each round of the outer loop: some
  started worker is alive. \<open>alive\<close> stands for \<open>t.is_alive()\<close>. After the queue has been
  drained, the loop ends when the flag is false (\<open>if not downloading: break\<close>).
\<close>

definition downloading_flag :: "(dtype \<times> int \<Rightarrow> bool) \<Rightarrow> stream_state \<Rightarrow> bool" where
  "downloading_flag alive st = list_ex alive (ds_dthreads st)"


section \<open>Properties of \<open>get_atoms\<close> and \<open>remove_sidx\<close>\<close>

subsection \<open>A box of size zero stalls the loop\<close>

lemma get_atoms_loop_stall:
  assumes "read_atom data ofs = Some (n, 0)" and "ofs + 8 < length data"
  shows "get_atoms_loop data ofs atoms = None"
proof (rule ccontr)
  assume "get_atoms_loop data ofs atoms \<noteq> None"
  then obtain y where y: "get_atoms_loop data ofs atoms = Some y" by auto
  have "\<not> (data = data \<and> ofs = ofs)"
  proof (rule get_atoms_loop.raw_induct[where P = "\<lambda>d k a r. \<not> (d = data \<and> k = ofs)", OF _ y], goal_cases)
    case (1 f d k a r)
    show ?case
    proof
      assume eq: "d = data \<and> k = ofs"
      with 1(2) assms have "f data ofs (a(n \<mapsto> \<lparr>atom_ofs = ofs, atom_len = 0\<rparr>)) = Some r"
        by simp
      from 1(1)[OF this] show False by simp
    qed
  qed
  then show False by simp
qed

text \<open>
  Nine zero bytes: the first round reads size 0 and the name of four NUL characters
  (which decodes), records the box and leaves \<open>ofs\<close> at 0; \<open>0 + 8 >= 9\<close> is false, so
  every later round is the same round.
\<close>

lemma read_atom_zeros: "read_atom (replicate 9 (CHR 0x00)) 0 = Some (replicate 4 (CHR 0x00), 0)"
  by (simp add: read_atom_def be_int_def numeral_eq_Suc utf8_cont_def)

text \<open>
  Claim C8 says that \<open>remove_sidx\<close> returns its input unchanged whenever the data holds no
  box named \<open>sidx\<close>. On nine zero bytes, which hold no such box, \<open>remove_sidx\<close> never
  returns: \<open>get_atoms\<close> stays in its loop.
\<close>

theorem remove_sidx_zero_box: "remove_sidx (replicate 9 (CHR 0x00)) = None"
  using get_atoms_loop_stall[OF read_atom_zeros, of Map.empty]
  by (simp add: remove_sidx_def get_atoms_def)

text \<open>
  Where no offset of the data reads as a box of size 0, every round moves \<open>ofs\<close> forward,
  and both functions return.
\<close>

lemma get_atoms_loop_returns:
  assumes "\<And>k n. read_atom data k \<noteq> Some (n, 0)"
  shows "\<exists>r. get_atoms_loop data ofs atoms = Some r"
proof (induction "length data - ofs" arbitrary: ofs atoms rule: less_induct)
  case less
  show ?case
  proof (cases "read_atom data ofs")
    case None
    then show ?thesis by (subst get_atoms_loop.simps) simp
  next
    case (Some p)
    obtain aname alen where p: "p = (aname, alen)" by (cases p)
    from Some p assms have pos: "0 < alen" by (cases alen) auto
    show ?thesis
    proof (cases "ofs + alen + 8 \<ge> length data")
      case True
      with Some p show ?thesis by (subst get_atoms_loop.simps) simp
    next
      case False
      with pos have "length data - (ofs + alen) < length data - ofs" by arith
      from less[OF this] obtain r where
        "get_atoms_loop data (ofs + alen)
           (atoms(aname \<mapsto> \<lparr>atom_ofs = ofs, atom_len = alen\<rparr>)) = Some r"
        by blast
      with False Some p show ?thesis by (subst get_atoms_loop.simps) simp
    qed
  qed
qed

lemma remove_sidx_returns:
  assumes "\<And>k n. read_atom data k \<noteq> Some (n, 0)"
  shows "\<exists>r. remove_sidx data = Some r"
proof -
  from get_atoms_loop_returns[OF assms, of 0 Map.empty] obtain t where
    "get_atoms data = Some t" by (auto simp: get_atoms_def)
  then show ?thesis by (simp add: remove_sidx_def split: option.splits)
qed

subsection \<open>The table is the visited list, later boxes overwriting earlier ones\<close>

lemma visited_imp_loop:
  "visited_atoms data ofs = Some bs \<Longrightarrow> get_atoms_loop data ofs atoms = Some (record_atoms bs atoms)"
proof (induction arbitrary: atoms rule: visited_atoms.raw_induct[rotated 1, consumes 1])
  case (1 f data ofs bs)
  show ?case
  proof (cases "read_atom data ofs")
    case None
    with 1(2) show ?thesis
      by (subst get_atoms_loop.simps) (simp add: record_atoms_def)
  next
    case (Some p)
    obtain aname alen where p: "p = (aname, alen)" by (cases p)
    show ?thesis
    proof (cases "ofs + alen + 8 \<ge> length data")
      case True
      with 1(2) Some p show ?thesis
        by (subst get_atoms_loop.simps) (auto simp add: record_atoms_def)
    next
      case False
      with 1(2) Some p obtain bs' where
        f: "f data (ofs + alen) = Some bs'" and
        bs: "bs = (aname, \<lparr>atom_ofs = ofs, atom_len = alen\<rparr>) # bs'"
        by (auto simp: bind_eq_Some_conv)
      from 1(1)[OF f] False Some p bs show ?thesis
        by (subst get_atoms_loop.simps) (simp add: record_atoms_def)
    qed
  qed
qed


lemma record_atoms_Nil: "record_atoms [] m = m"
  by (simp add: record_atoms_def)

lemma record_atoms_Cons: "record_atoms ((n, a) # bs) m = record_atoms bs (m(n \<mapsto> a))"
  by (simp add: record_atoms_def)


lemma record_atoms_other:
  "n \<notin> fst ` set bs \<Longrightarrow> record_atoms bs m n = m n"
  by (induction bs arbitrary: m) (auto simp: record_atoms_Nil record_atoms_Cons)









lemma get_atoms_visited:
  "visited_atoms data 0 = Some bs \<Longrightarrow> get_atoms data = Some (record_atoms bs Map.empty)"
  by (simp add: get_atoms_def visited_imp_loop)




text \<open>
  Where the loop does return and has visited no box named \<open>sidx\<close>, the data passes
  through unchanged.
\<close>

lemma remove_sidx_no_sidx:
  assumes "visited_atoms data 0 = Some bs" and "''sidx'' \<notin> fst ` set bs"
  shows "remove_sidx data = Some data"
  using get_atoms_visited[OF assms(1)] record_atoms_other[OF assms(2), of Map.empty]
  by (simp add: remove_sidx_def)

subsection \<open>Several boxes named \<open>sidx\<close>\<close>


subsection \<open>Applying \<open>remove_sidx\<close> twice\<close>


subsection \<open>Concrete runs\<close>






section \<open>Properties of \<open>is_fragmented\<close>\<close>

lemma find_from_ge: "find_from i sub s \<ge> 0 \<longleftrightarrow> sublist sub s"
proof (induction s arbitrary: i)
  case Nil
  then show ?case by simp
next
  case (Cons c cs)
  then show ?case by (simp add: sublist_Cons_right)
qed

text \<open>
  Claim C5, amended: \<open>is_fragmented\<close> holds exactly when the whole URL, in lower case,
  contains \<open>noclen\<close> somewhere, in the query or anywhere else.
\<close>

theorem is_fragmented_iff: "is_fragmented u \<longleftrightarrow> sublist ''noclen'' (py_lower u)"
  by (simp add: is_fragmented_def py_find_def find_from_ge)

text \<open>An instance: a DASH base URL carries \<open>noclen\<close> as a path segment and has no query.\<close>

theorem is_fragmented_iff_witness:
  "is_fragmented ''https://r1.example/videoplayback/noclen/1/sq/{0}''
   \<and> url_query ''https://r1.example/videoplayback/noclen/1/sq/{0}'' = []"
proof -
  have "sublist ''noclen'' (py_lower ''https://r1.example/videoplayback/noclen/1/sq/{0}'')"
    by code_simp
  then show ?thesis
    using is_fragmented_iff[of "''https://r1.example/videoplayback/noclen/1/sq/{0}''"]
    by (simp add: url_query_def)
qed

text \<open>
  Claim C5 as stated fails: a URL with \<open>noclen\<close> in its host name and none in its
  query is taken for fragmented, and so is one whose query spells the marker in upper
  case only.
\<close>

theorem is_fragmented_counterexample:
  "is_fragmented ''http://noclen.example/v?clen=5''
   \<and> \<not> sublist ''noclen'' (url_query ''http://noclen.example/v?clen=5'')
   \<and> is_fragmented ''http://h.example/v?NOCLEN=1''
   \<and> \<not> sublist ''noclen'' (url_query ''http://h.example/v?NOCLEN=1'')"
  by code_simp

section \<open>Properties of \<open>parse_quality_list\<close>\<close>

lemma py_lower_append: "py_lower (a @ b) = py_lower a @ py_lower b"
  by (simp add: py_lower_def)

lemma py_lower_slash: "py_lower_char (CHR ''/'') = CHR ''/''"
  by (simp add: py_lower_char_def)

lemma py_lower_join:
  "(\<And>q. q \<in> set qs \<Longrightarrow> py_lower q = q) \<Longrightarrow>
     py_lower (py_join (CHR ''/'') qs) = py_join (CHR ''/'') qs"
proof (induction "CHR ''/''" qs rule: py_join.induct)
  case 1
  then show ?case by (simp add: py_lower_def)
next
  case (2 x)
  then show ?case by simp
next
  case (3 x y ys)
  have "py_lower (py_join (CHR ''/'') (y # ys)) = py_join (CHR ''/'') (y # ys)"
    by (rule 3(1)) (simp add: 3(2))
  moreover have "py_lower x = x" by (simp add: 3(2))
  moreover have "py_lower (x @ CHR ''/'' # r) = py_lower x @ CHR ''/'' # py_lower r" for r
    by (simp add: py_lower_def py_lower_slash)
  ultimately show ?case by simp
qed

lemma dropWhile_id_iff: "dropWhile P s = s \<longleftrightarrow> s = [] \<or> \<not> P (hd s)"
proof (cases s)
  case Nil
  then show ?thesis by simp
next
  case (Cons c cs)
  have "length (dropWhile P cs) \<le> length cs" by (rule length_dropWhile_le)
  then have "dropWhile P cs \<noteq> c # cs" by (metis impossible_Cons)
  with Cons show ?thesis by simp
qed

lemma py_strip_id_iff:
  "py_strip s = s \<longleftrightarrow> s = [] \<or> (\<not> py_isspace (hd s) \<and> \<not> py_isspace (last s))"
proof (cases "s = []")
  case True
  then show ?thesis by (simp add: py_strip_def)
next
  case False
  show ?thesis
  proof (cases "py_isspace (hd s)")
    case True
    have "length (py_strip s) \<le> length (dropWhile py_isspace s)"
      unfolding py_strip_def
      using length_dropWhile_le[of py_isspace "rev (dropWhile py_isspace s)"] by simp
    moreover have "length (dropWhile py_isspace s) < length s"
      using False True by (cases s) (auto simp: less_Suc_eq_le length_dropWhile_le)
    ultimately have "py_strip s \<noteq> s" by auto
    with True False show ?thesis by simp
  next
    case nsp: False
    then have d: "dropWhile py_isspace s = s" by (simp add: dropWhile_id_iff)
    have "rev (dropWhile py_isspace (rev s)) = s \<longleftrightarrow> dropWhile py_isspace (rev s) = rev s"
      by (metis rev_rev_ident)
    also have "\<dots> \<longleftrightarrow> \<not> py_isspace (hd (rev s))"
      using False by (simp add: dropWhile_id_iff)
    also have "\<dots> \<longleftrightarrow> \<not> py_isspace (last s)"
      using False by (simp add: hd_rev)
    finally show ?thesis using False nsp d by (simp add: py_strip_def)
  qed
qed

lemma slash_not_space: "\<not> py_isspace (CHR ''/'')"
  by (simp add: py_isspace_def)

lemma py_strip_join:
  "(\<And>q. q \<in> set qs \<Longrightarrow> py_strip q = q) \<Longrightarrow>
     py_strip (py_join (CHR ''/'') qs) = py_join (CHR ''/'') qs"
proof (induction "CHR ''/''" qs rule: py_join.induct)
  case 1
  then show ?case by (simp add: py_strip_def)
next
  case (2 x)
  then show ?case by simp
next
  case (3 x y ys)
  let ?r = "py_join (CHR ''/'') (y # ys)"
  have r: "py_strip ?r = ?r" by (rule 3(1)) (simp add: 3(2))
  have x: "py_strip x = x" by (simp add: 3(2))
  have h: "\<not> py_isspace (hd (x @ CHR ''/'' # ?r))"
    using x by (cases x) (auto simp: py_strip_id_iff slash_not_space)
  have l: "\<not> py_isspace (last (x @ CHR ''/'' # ?r))"
    using r by (cases "?r = []") (auto simp: py_strip_id_iff slash_not_space)
  from h l show ?case by (simp add: py_strip_id_iff)
qed

lemma py_split_no_sep: "sep \<notin> set x \<Longrightarrow> py_split sep x = [x]"
  by (induction x) auto

lemma py_split_first:
  "sep \<notin> set x \<Longrightarrow> py_split sep (x @ sep # rest) = x # py_split sep rest"
  by (induction x) auto

lemma py_split_join:
  "qs \<noteq> [] \<Longrightarrow> (\<And>q. q \<in> set qs \<Longrightarrow> sep \<notin> set q) \<Longrightarrow>
     py_split sep (py_join sep qs) = qs"
proof (induction sep qs rule: py_join.induct)
  case (1 sep)
  then show ?case by simp
next
  case (2 sep x)
  then show ?case by (simp add: py_split_no_sep)
next
  case (3 sep x y ys)
  have "py_split sep (py_join sep (y # ys)) = y # ys"
    by (rule 3(1)) (simp_all add: 3(3))
  moreover have "sep \<notin> set x" by (simp add: 3(3))
  ultimately show ?case by (simp add: py_split_first)
qed

text \<open>
  Claim C7, amended: if every element of \<open>qs\<close> is in lower case, has no whitespace at
  either end and contains no \<open>/\<close> (and, for empty \<open>qs\<close>, the empty string is not a
  format), then \<open>parse_quality_list\<close> on \<open>"/".join(qs)\<close> returns exactly the elements of
  \<open>qs\<close> that are in \<open>formats\<close> or equal \<open>best\<close>, in their order.
\<close>

theorem parse_quality_list_join:
  assumes "\<forall>q \<in> set qs. py_lower q = q \<and> py_strip q = q \<and> CHR ''/'' \<notin> set q"
    and "qs \<noteq> [] \<or> [] \<notin> set formats"
  shows "parse_quality_list formats (py_join (CHR ''/'') qs)
         = known_or_best formats qs"
proof -
  have low: "py_lower (py_join (CHR ''/'') qs) = py_join (CHR ''/'') qs"
    using assms(1) by (intro py_lower_join) simp
  have str: "py_strip (py_join (CHR ''/'') qs) = py_join (CHR ''/'') qs"
    using assms(1) by (intro py_strip_join) simp
  have flt: "filter (\<lambda>q. py_strip q \<in> set formats \<or> py_strip q = ''best'') qs
             = filter (\<lambda>q. q \<in> set formats \<or> q = ''best'') qs"
    using assms(1) by (intro filter_cong) simp_all
  show ?thesis
  proof (cases "qs = []")
    case True
    with assms(2) show ?thesis
      by (simp add: parse_quality_list_def known_or_best_def py_strip_def py_lower_def)
  next
    case False
    have "py_split (CHR ''/'') (py_join (CHR ''/'') qs) = qs"
      using False assms(1) by (intro py_split_join) simp_all
    with low str flt show ?thesis by (simp add: parse_quality_list_def known_or_best_def)
  qed
qed

text \<open>An instance of the amended claim C7 on the label table.\<close>

theorem parse_quality_list_join_witness:
  "parse_quality_list VIDEO_LABELS (py_join (CHR ''/'') [''1080p60'', ''4k'', ''best''])
     = [''1080p60'', ''best'']"
proof -
  have "\<forall>q \<in> set [''1080p60'', ''4k'', ''best''].
          py_lower q = q \<and> py_strip q = q \<and> CHR ''/'' \<notin> set q"
    by (simp add: py_lower_def py_lower_char_def py_strip_def py_isspace_def)
  from parse_quality_list_join[OF this, of VIDEO_LABELS] show ?thesis
    by (simp add: VIDEO_LABELS_def known_or_best_def)
qed

text \<open>
  Claim C7 as stated fails: the function lower-cases its input before it looks labels up,
  and tests each piece after stripping it but returns the piece unstripped. Of \<open>720P\<close>,
  \<open>144p\<close> followed by a blank, and \<open>best\<close>, only \<open>best\<close> is in the table or equal to
  \<open>best\<close>, yet all three pieces come back.
\<close>

theorem parse_quality_list_counterexample:
  "parse_quality_list VIDEO_LABELS (py_join (CHR ''/'') [''720P'', ''144p '', ''best''])
     = [''720p'', ''144p '', ''best'']
   \<and> known_or_best VIDEO_LABELS [''720P'', ''144p '', ''best''] = [''best'']"
  by code_simp

section \<open>Properties of \<open>get_video_info\<close>\<close>

text \<open>
  Claim C10: when the stopping flag is set, the call returns \<open>False\<close>, leaves every
  field of the run-wide state as it was and does not call
  \<open>get_playable_player_response\<close>.
\<close>

theorem get_video_info_stopping:
  "stopping info \<Longrightarrow>
     get_video_info e now info = \<lparr>gv_ret = RFalse, gv_info = info, gv_probes = 0\<rparr>"
  by (simp add: get_video_info_def)

text \<open>
  An instance of claim C10, next to the same call without the flag, which probes once,
  rebinds the video template and moves \<open>last_updated\<close>.
\<close>

theorem get_video_info_stopping_witness:
  "get_video_info example_env 100 (running_info\<lparr>stopping := True\<rparr>)
     = \<lparr>gv_ret = RFalse, gv_info = running_info\<lparr>stopping := True\<rparr>, gv_probes = 0\<rparr>
   \<and> gv_ret (get_video_info example_env 100 running_info) = RTrue
   \<and> gv_probes (get_video_info example_env 100 running_info) = 1
   \<and> last_updated (gv_info (get_video_info example_env 100 running_info)) = 1000
   \<and> download_url (mdl_info (gv_info (get_video_info example_env 100 running_info)) DTYPE_VIDEO)
       = ''https://b.example/v?noclen=1&n=2&sq={0}''"
proof -
  have s: "stopping (running_info\<lparr>stopping := True\<rparr>)" by simp
  have r: "gv_ret (get_video_info example_env 100 running_info) = RTrue
   \<and> gv_probes (get_video_info example_env 100 running_info) = 1
   \<and> last_updated (gv_info (get_video_info example_env 100 running_info)) = 1000
   \<and> download_url (mdl_info (gv_info (get_video_info example_env 100 running_info)) DTYPE_VIDEO)
       = ''https://b.example/v?noclen=1&n=2&sq={0}''"
    by (simp add: get_video_info_def running_info_def new_download_info_def example_env_def
        example_vals_def refresh_from_def RECHECK_TIME_def set_download_url_def
        get_download_urls_def rebind_urls_def finish_refresh_def AUDIO_ITAG_def
        is_fragmented_def py_find_def py_lower_def py_lower_char_def Let_def)
  from get_video_info_stopping[OF s, of example_env 100] r show ?thesis by simp
qed

text \<open>
  Claim C6, amended: a call less than 15 seconds after \<open>last_updated\<close> does not probe and
  leaves every field of the state as it was (so no template is rebound and
  \<open>last_updated\<close> stays); it returns \<open>False\<close>, except that it returns \<open>None\<close> when
  \<open>is_unavailable\<close> is set and neither \<open>gvideo_ddl\<close> nor \<open>stopping\<close> is.
\<close>

theorem get_video_info_rate_limit:
  "now - last_updated info < RECHECK_TIME \<Longrightarrow>
     get_video_info e now info =
       \<lparr>gv_ret = (if is_unavailable info \<and> \<not> gvideo_ddl info \<and> \<not> stopping info
                  then RNone else RFalse),
        gv_info = info, gv_probes = 0\<rparr>"
  by (simp add: get_video_info_def)

text \<open>An instance of the amended claim C6: a call 10 seconds after the last refresh.\<close>

theorem get_video_info_rate_limit_witness:
  "get_video_info example_env 10 running_info
     = \<lparr>gv_ret = RFalse, gv_info = running_info, gv_probes = 0\<rparr>"
proof -
  have "(10::real) - last_updated running_info < RECHECK_TIME"
    by (simp add: running_info_def new_download_info_def set_download_url_def RECHECK_TIME_def)
  from get_video_info_rate_limit[OF this, of example_env] show ?thesis
    by (simp add: running_info_def new_download_info_def set_download_url_def)
qed

text \<open>
  Claim C6 as stated fails: 10 seconds after the last refresh, with \<open>is_unavailable\<close>
  set, the call returns \<open>None\<close>, not \<open>False\<close>.
\<close>

theorem get_video_info_rate_limit_counterexample:
  "(10::real) - last_updated (running_info\<lparr>is_unavailable := True\<rparr>) < RECHECK_TIME
   \<and> gv_ret (get_video_info example_env 10 (running_info\<lparr>is_unavailable := True\<rparr>)) = RNone
   \<and> RNone \<noteq> RFalse"
  by (simp add: get_video_info_def running_info_def new_download_info_def
      set_download_url_def RECHECK_TIME_def)

section \<open>Properties of the HTTP error handler\<close>

text \<open>
  Claim C3, amended: on HTTP 404 the worker leaves the retry loop with
  \<open>downloading = False\<close>, and without counting a retry, exactly when \<open>max_seq > -1\<close>, the
  stream is not live and \<open>seq >= max_seq - 2\<close>; in every other case the block counts one
  retry (\<open>tries + 1\<close>) and changes nothing else.
\<close>

theorem on_http_404:
  "on_http_error e now dt 404 info w =
     (if fw_max_seq w > - 1 \<and> \<not> is_live info \<and> fw_seq w \<ge> fw_max_seq w - 2
      then \<lparr>hr_exit = Break, hr_info = info, hr_worker = w\<lparr>fw_downloading := False\<rparr>\<rparr>
      else \<lparr>hr_exit = Fall, hr_info = info, hr_worker = w\<lparr>fw_tries := fw_tries w + 1\<rparr>\<rparr>)"
  by (simp add: on_http_error_def count_retry_def)

text \<open>
  Two instances of the amended claim C3: a 404 while the stream is live counts a retry;
  a 404 for fragment 98 of 100 on a stream that is no longer live ends the worker.
\<close>

theorem on_http_404_witness:
  "on_http_error example_env 0 DTYPE_AUDIO 404 running_info example_worker
     = \<lparr>hr_exit = Fall, hr_info = running_info, hr_worker = example_worker\<lparr>fw_tries := 1\<rparr>\<rparr>
   \<and> on_http_error example_env 0 DTYPE_AUDIO 404 (running_info\<lparr>is_live := False\<rparr>)
        (example_worker\<lparr>fw_seq := 98, fw_max_seq := 100\<rparr>)
     = \<lparr>hr_exit = Break, hr_info = running_info\<lparr>is_live := False\<rparr>,
        hr_worker = example_worker\<lparr>fw_seq := 98, fw_max_seq := 100, fw_downloading := False\<rparr>\<rparr>"
  using on_http_404[of example_env 0 DTYPE_AUDIO running_info example_worker]
    on_http_404[of example_env 0 DTYPE_AUDIO "running_info\<lparr>is_live := False\<rparr>"
      "example_worker\<lparr>fw_seq := 98, fw_max_seq := 100\<rparr>"]
  by (simp add: running_info_def new_download_info_def set_download_url_def example_worker_def)

text \<open>
  Claim C3 as stated fails: with \<open>max_seq = 0\<close>, which is not above 0, a 404 for fragment
  1 on a stream that is not live ends the worker and counts no retry.
\<close>

theorem on_http_404_counterexample:
  "hr_exit (on_http_error example_env 0 DTYPE_AUDIO 404 (running_info\<lparr>is_live := False\<rparr>)
              example_worker) = Break
   \<and> fw_tries (hr_worker (on_http_error example_env 0 DTYPE_AUDIO 404
                 (running_info\<lparr>is_live := False\<rparr>) example_worker)) = fw_tries example_worker
   \<and> \<not> fw_max_seq example_worker > 0"
  by (simp add: on_http_error_def example_worker_def)

section \<open>Properties of the \<open>--threads\<close> option\<close>





section \<open>Properties of the assembler\<close>






















subsection \<open>Concrete runs of the assembler\<close>











end
